theory Spec2Isabelle
  imports Main
begin

section \<open>Data model\<close>

text \<open>
  The two JSON sources (\<^verbatim>\<open>etl.py\<close> reads them with \<^verbatim>\<open>spark.read.json\<close>). Every field
  is nullable, so every field is an \<open>option\<close> with \<open>None\<close> for SQL null. Only the fields
  the program names are kept. The type \<open>'n\<close> stands for the double-precision fields:
  nothing here computes with them, they are only compared for equality.
\<close>

record 'n song_record =
  song_id :: "string option"
  title :: "string option"
  artist_id :: "string option"
  year :: "int option"
  duration :: "'n option"
  artist_name :: "string option"
  artist_location :: "string option"
  artist_latitude :: "'n option"
  artist_longitude :: "'n option"

record event_record =
  userId :: "string option"
  firstName :: "string option"
  lastName :: "string option"
  gender :: "string option"
  level :: "string option"
  ts :: "int option"
  page :: "string option"
  song :: "string option"
  artist :: "string option"
  sessionId :: "int option"
  location :: "string option"
  userAgent :: "string option"

text \<open>
  The event dataframe after line 72 (\<^verbatim>\<open>withColumn("start_time", ...)\<close>): the same
  columns and one more. \<open>'ts\<close> is Spark's timestamp type.
\<close>

record 'ts timed_event = event_record +
  start_time :: "'ts option"

text \<open>The five output tables, by the columns the program selects.\<close>

record 'n songs_row =
  song_id :: "string option"
  title :: "string option"
  artist_id :: "string option"
  year :: "int option"
  duration :: "'n option"

record 'n artists_row =
  artist_id :: "string option"
  artist_name :: "string option"
  artist_location :: "string option"
  artist_latitude :: "'n option"
  artist_longitude :: "'n option"

record users_row =
  userId :: "string option"
  firstName :: "string option"
  lastName :: "string option"
  gender :: "string option"
  level :: "string option"

record 'ts time_row =
  start_time :: "'ts option"
  hour :: "int option"
  day :: "int option"
  week :: "int option"
  month :: "int option"
  year :: "int option"
  weekday :: "int option"

record 'f songplays_row =
  songplay_id :: int
  start_time :: 'f
  year :: "int option"
  month :: "int option"
  user_id :: "string option"
  level :: "string option"
  song_id :: "string option"
  artist_id :: "string option"
  session_id :: "int option"
  location :: "string option"
  user_agent :: "string option"

datatype ('n, 'ts, 'f) table =
    SongsTable "'n songs_row list"
  | ArtistsTable "'n artists_row list"
  | UsersTable "users_row list"
  | TimeTable "'ts time_row list"
  | SongplaysTable "'f songplays_row list"

text \<open>
  What \<^verbatim>\<open>df.write.mode(m).partitionBy(cols).parquet(path)\<close> leaves at \<open>path\<close>, and the
  world the session reads from and writes to: the record collections under the input
  paths and the parquet datasets written so far.
\<close>

record ('n, 'ts, 'f) parquet_file =
  write_mode :: string
  partitionBy :: "string list"
  content :: "('n, 'ts, 'f) table"

record ('n, 'ts, 'f) spark_session =
  song_json :: "string \<Rightarrow> 'n song_record list"
  log_json :: "string \<Rightarrow> event_record list"
  parquet :: "string \<rightharpoonup> ('n, 'ts, 'f) parquet_file"

section \<open>Python locals and statements\<close>

text \<open>
  Both functions are straight-line code over local variables. A name that is assigned
  anywhere in a Python function body is local to it, and reading it before its first
  assignment raises \<^verbatim>\<open>UnboundLocalError\<close> (a subclass of \<^verbatim>\<open>NameError\<close>). The locals of a
  call are a record with one slot per name, \<open>None\<close> while the name is unbound; the
  three parameters are bound from the start. A statement maps the locals to new locals
  or raises; \<open>exec\<close> runs statements in order and stops at the first error, keeping
  the locals (and with them the session's files) as they were when it was raised.
\<close>

datatype error =
    UnboundLocalError string
  | AttributeError string
  | AnalysisException string
  | TypeError string

definition is_NameError :: "error \<Rightarrow> bool" where
  "is_NameError e = (case e of UnboundLocalError _ \<Rightarrow> True | _ \<Rightarrow> False)"

definition load_fast :: "string \<Rightarrow> 'a option \<Rightarrow> error + 'a" where
  "load_fast name slot = (case slot of None \<Rightarrow> Inl (UnboundLocalError name) | Some v \<Rightarrow> Inr v)"

definition and_then :: "error + 'a \<Rightarrow> ('a \<Rightarrow> error + 'b) \<Rightarrow> error + 'b" where
  "and_then r k = (case r of Inl e \<Rightarrow> Inl e | Inr v \<Rightarrow> k v)"

fun exec :: "('s \<Rightarrow> error + 's) list \<Rightarrow> 's \<Rightarrow> error option \<times> 's" where
  "exec [] l = (None, l)"
| "exec (c # cs) l = (case c l of Inl e \<Rightarrow> (Some e, l) | Inr l' \<Rightarrow> exec cs l')"

record ('n, 'ts, 'f) call_args =
  spark :: "('n, 'ts, 'f) spark_session"
  input_data :: string
  output_data :: string

record ('n, 'ts, 'f) song_locals = "('n, 'ts, 'f) call_args" +
  v_song_data :: "string option"
  v_df :: "'n song_record list option"
  v_song_table_schema :: "string list option"
  v_songs_table :: "'n songs_row list option"
  v_artist_table_schema :: "string list option"
  v_artists_table :: "'n artists_row list option"

text \<open>
  In \<^verbatim>\<open>process_log_data\<close> the name \<^verbatim>\<open>df\<close> is bound twice, to dataframes of different
  schemas: by line 59 (slot \<open>v_df\<close>) and again by line 72, which adds the column
  \<^verbatim>\<open>start_time\<close> (slot \<open>v_df_timed\<close>, read by every later \<^verbatim>\<open>df\<close>).
\<close>

record ('n, 'ts, 'f) log_locals = "('n, 'ts, 'f) call_args" +
  v_log_data :: "string option"
  v_df :: "event_record list option"
  v_users_table_schema :: "string list option"
  v_users_table :: "users_row list option"
  v_df_timed :: "'ts timed_event list option"
  v_time_table :: "'ts time_row list option"
  v_songs_df :: "('n, 'ts, 'f) table option"
  v_songplays_table :: "'f songplays_row list option"

text \<open>
  The Spark SQL built-ins the log stage calls. They are library code, not code of this
  program, so they are parameters: \<open>div_1000\<close> is the column expression
  \<^verbatim>\<open>df.ts / 1000.0\<close> (a double), \<open>monotonically_increasing_id\<close> gives the id of the
  row at a position of the joined dataframe, and \<open>date_format\<close> takes a timestamp and
  a format string, as the library's \<^verbatim>\<open>date_format(date, format)\<close> does.
\<close>

record ('n, 'ts, 'f) sql_functions =
  div_1000 :: "int option \<Rightarrow> 'n option"
  to_timestamp :: "'n option \<Rightarrow> 'ts option"
  hour :: "'ts option \<Rightarrow> int option"
  dayofmonth :: "'ts option \<Rightarrow> int option"
  weekofyear :: "'ts option \<Rightarrow> int option"
  month :: "'ts option \<Rightarrow> int option"
  year :: "'ts option \<Rightarrow> int option"
  dayofweek :: "'ts option \<Rightarrow> int option"
  date_format :: "'ts option \<Rightarrow> string \<Rightarrow> 'f"
  monotonically_increasing_id :: "nat \<Rightarrow> int"

section \<open>Dataframe operations\<close>

text \<open>
  A dataframe is the list of its rows. Reading and writing are total: the session
  yields the records under a path and keeps what is written; failures of the storage
  are not part of the model.

  \<^verbatim>\<open>dropna(how='any', subset=cols)\<close> keeps a row only when none of the named columns is
  null; \<^verbatim>\<open>select\<close> projects every row; \<^verbatim>\<open>dropDuplicates()\<close> with no argument keeps one
  copy of every row that is equal in all its columns.
\<close>

definition dropna :: "('r \<Rightarrow> 'v option) list \<Rightarrow> 'r list \<Rightarrow> 'r list" where
  "dropna cols df = filter (\<lambda>r. list_all (\<lambda>c. c r \<noteq> None) cols) df"

definition select :: "('r \<Rightarrow> 's) \<Rightarrow> 'r list \<Rightarrow> 's list" where
  "select cols df = map cols df"

definition dropDuplicates :: "'r list \<Rightarrow> 'r list" where
  "dropDuplicates df = remdups df"

text \<open>
  SQL equality of two nullable columns, as a join or filter condition uses it: a
  comparison with null is not true.
\<close>

definition sql_eq :: "'v option \<Rightarrow> 'v option \<Rightarrow> bool" where
  "sql_eq a b = (a \<noteq> None \<and> a = b)"

text \<open>
  \<^verbatim>\<open>left.join(right, cond, how='left')\<close>: every left row is paired with each right row
  that satisfies the condition, and with null columns (\<open>None\<close>) when there is none.
\<close>

definition join_left :: "'a list \<Rightarrow> 'b list \<Rightarrow> ('a \<Rightarrow> 'b \<Rightarrow> bool) \<Rightarrow> ('a \<times> 'b option) list" where
  "join_left left right cond =
     concat (map (\<lambda>a. case filter (cond a) right of
                          [] \<Rightarrow> [(a, None)]
                        | ms \<Rightarrow> map (\<lambda>b. (a, Some b)) ms) left)"

definition write_parquet ::
  "('n, 'ts, 'f) spark_session \<Rightarrow> string \<Rightarrow> string list \<Rightarrow> string \<Rightarrow> ('n, 'ts, 'f) table
     \<Rightarrow> ('n, 'ts, 'f) spark_session" where
  "write_parquet sp m cols path t =
     sp\<lparr>parquet := (parquet sp)(path \<mapsto> \<lparr>write_mode = m, partitionBy = cols, content = t\<rparr>)\<rparr>"

section \<open>The song and artist dimensions (lines 29 to 47)\<close>

definition song_table_columns :: "'n song_record \<Rightarrow> 'n songs_row" where
  "song_table_columns r =
     \<lparr>songs_row.song_id = song_record.song_id r,
      title = song_record.title r,
      artist_id = song_record.artist_id r,
      year = song_record.year r,
      duration = song_record.duration r\<rparr>"

definition artist_table_columns :: "'n song_record \<Rightarrow> 'n artists_row" where
  "artist_table_columns r =
     \<lparr>artists_row.artist_id = song_record.artist_id r,
      artist_name = song_record.artist_name r,
      artist_location = song_record.artist_location r,
      artist_latitude = song_record.artist_latitude r,
      artist_longitude = song_record.artist_longitude r\<rparr>"

definition songs_table :: "'n song_record list \<Rightarrow> 'n songs_row list" where
  "songs_table df =
     dropDuplicates (select song_table_columns
       (dropna [song_record.song_id, song_record.artist_id] df))"

definition artists_table :: "'n song_record list \<Rightarrow> 'n artists_row list" where
  "artists_table df =
     dropDuplicates (select artist_table_columns
       (dropna [song_record.song_id, song_record.artist_id] df))"

text \<open>
  \<^verbatim>\<open>process_song_data\<close>, one entry per statement (lines 26, 27, 30, 31, 35, 40, 41, 45).
\<close>

definition process_song_data_body ::
  "(('n, 'ts, 'f) song_locals \<Rightarrow> error + ('n, 'ts, 'f) song_locals) list" where
  "process_song_data_body =
    [\<lambda>l. Inr (l\<lparr>v_song_data := Some (input_data l @ ''song_data'')\<rparr>),
     \<lambda>l. and_then (load_fast ''song_data'' (v_song_data l)) (\<lambda>p.
          Inr (l\<lparr>song_locals.v_df := Some (song_json (spark l) p)\<rparr>)),
     \<lambda>l. Inr (l\<lparr>v_song_table_schema :=
            Some [''song_id'', ''title'', ''artist_id'', ''year'', ''duration'']\<rparr>),
     \<lambda>l. and_then (load_fast ''df'' (song_locals.v_df l)) (\<lambda>d.
          and_then (load_fast ''song_table_schema'' (v_song_table_schema l)) (\<lambda>_.
          Inr (l\<lparr>v_songs_table := Some (songs_table d)\<rparr>))),
     \<lambda>l. and_then (load_fast ''songs_table'' (v_songs_table l)) (\<lambda>t.
          Inr (l\<lparr>spark := write_parquet (spark l) ''overwrite'' [''year'', ''artist_id'']
                 (output_data l @ ''songs.parquet'') (SongsTable t)\<rparr>)),
     \<lambda>l. Inr (l\<lparr>v_artist_table_schema :=
            Some [''artist_id'', ''artist_name'', ''artist_location'', ''artist_latitude'',
                  ''artist_longitude'']\<rparr>),
     \<lambda>l. and_then (load_fast ''df'' (song_locals.v_df l)) (\<lambda>d.
          and_then (load_fast ''artist_table_schema'' (v_artist_table_schema l)) (\<lambda>_.
          Inr (l\<lparr>v_artists_table := Some (artists_table d)\<rparr>))),
     \<lambda>l. and_then (load_fast ''artists_table'' (v_artists_table l)) (\<lambda>t.
          Inr (l\<lparr>spark := write_parquet (spark l) ''overwrite'' [''artist_location'']
                 (output_data l @ ''artists.parquet'') (ArtistsTable t)\<rparr>))]"

definition process_song_data ::
  "('n, 'ts, 'f) spark_session \<Rightarrow> string \<Rightarrow> string
     \<Rightarrow> error option \<times> ('n, 'ts, 'f) song_locals" where
  "process_song_data sp inp out =
     exec process_song_data_body
       \<lparr>spark = sp, input_data = inp, output_data = out,
        v_song_data = None, song_locals.v_df = None, v_song_table_schema = None,
        v_songs_table = None, v_artist_table_schema = None,
        v_artists_table = None\<rparr>"

section \<open>The log stage (lines 58 to 104)\<close>

definition users_table_columns :: "event_record \<Rightarrow> users_row" where
  "users_table_columns e =
     \<lparr>users_row.userId = event_record.userId e,
      users_row.firstName = event_record.firstName e,
      users_row.lastName = event_record.lastName e,
      users_row.gender = event_record.gender e,
      users_row.level = event_record.level e\<rparr>"

text \<open>Lines 63 to 65.\<close>

definition users_table :: "event_record list \<Rightarrow> users_row list" where
  "users_table df =
     dropDuplicates (select users_table_columns
       (dropna [event_record.userId, event_record.firstName] df))"

text \<open>Line 72: \<^verbatim>\<open>df.withColumn("start_time", to_timestamp(df.ts / 1000.0))\<close>.\<close>

definition withColumn_start_time ::
  "('n, 'ts, 'f) sql_functions \<Rightarrow> event_record list \<Rightarrow> 'ts timed_event list" where
  "withColumn_start_time F df =
     map (\<lambda>e. event_record.extend e
                 (timed_event.fields (to_timestamp F (div_1000 F (ts e))))) df"

text \<open>Lines 75 to 82: the distinct timestamps, then six derived columns.\<close>

definition time_table ::
  "('n, 'ts, 'f) sql_functions \<Rightarrow> 'ts timed_event list \<Rightarrow> 'ts time_row list" where
  "time_table F df =
     map (\<lambda>t. \<lparr>time_row.start_time = t,
                time_row.hour = sql_functions.hour F t,
                time_row.day = dayofmonth F t,
                time_row.week = weekofyear F t,
                time_row.month = sql_functions.month F t,
                time_row.year = sql_functions.year F t,
                time_row.weekday = dayofweek F t\<rparr>)
       (dropDuplicates (select timed_event.start_time df))"

text \<open>
  A Python call of \<^verbatim>\<open>date_format\<close> on a column: both parameters of
  \<^verbatim>\<open>date_format(date, format)\<close> are required, so a call that gives no format raises
  \<^verbatim>\<open>TypeError\<close>; a call that gives one yields the formatted column.
\<close>

definition call_date_format ::
  "('n, 'ts, 'f) sql_functions \<Rightarrow> ('r \<Rightarrow> 'ts option) \<Rightarrow> string option
     \<Rightarrow> error + ('r \<Rightarrow> 'f)" where
  "call_date_format F date_col fmt_arg =
     (case fmt_arg of
        None \<Rightarrow> Inl (TypeError ''date_format() missing 1 required positional argument'')
      | Some fmt \<Rightarrow> Inr (\<lambda>r. date_format F (date_col r) fmt))"

text \<open>
  Lines 92 to 99, in the order Python evaluates them: the left join on
  \<^verbatim>\<open>df.song == songs_df.title\<close> (line 92), the id column (line 93), and then the
  argument of the second \<^verbatim>\<open>withColumn\<close>, \<^verbatim>\<open>date_format(df.start_time)\<close> (line 94), a call
  with the column alone. Only if that call returned would the columns of lines 94 to 96
  and the projection of lines 97 to 99 follow; \<open>songplay\<close> is the row they would give,
  with the song's columns null when the join found no song. (Lines 95 and 96 read
  \<^verbatim>\<open>df.start_time\<close> after line 94 has replaced the column of that name; the row takes
  the event's timestamp for them.)
\<close>

definition songplay ::
  "('n, 'ts, 'f) sql_functions \<Rightarrow> ('ts timed_event \<Rightarrow> 'f)
     \<Rightarrow> nat \<times> 'ts timed_event \<times> 'n songs_row option \<Rightarrow> 'f songplays_row" where
  "songplay F start_time_col x =
     (case x of (i, e, s) \<Rightarrow>
       \<lparr>songplays_row.songplay_id = monotonically_increasing_id F i,
        songplays_row.start_time = start_time_col e,
        songplays_row.year = sql_functions.year F (timed_event.start_time e),
        songplays_row.month = sql_functions.month F (timed_event.start_time e),
        songplays_row.user_id = event_record.userId e,
        songplays_row.level = event_record.level e,
        songplays_row.song_id = (case s of None \<Rightarrow> None | Some r \<Rightarrow> songs_row.song_id r),
        songplays_row.artist_id = (case s of None \<Rightarrow> None | Some r \<Rightarrow> songs_row.artist_id r),
        songplays_row.session_id = sessionId e,
        songplays_row.location = event_record.location e,
        songplays_row.user_agent = userAgent e\<rparr>)"

definition songplays_table ::
  "('n, 'ts, 'f) sql_functions \<Rightarrow> 'ts timed_event list \<Rightarrow> 'n songs_row list
     \<Rightarrow> error + 'f songplays_row list" where
  "songplays_table F df songs_df =
     (let joined = join_left df songs_df (\<lambda>e s. sql_eq (song e) (songs_row.title s));
          with_id = enumerate 0 joined
      in and_then (call_date_format F timed_event.start_time None) (\<lambda>start_time_col.
           Inr (map (songplay F start_time_col) with_id)))"

text \<open>The filter of line 59, \<^verbatim>\<open>.filter(df.page == 'NextSong')\<close>, on the rows it is applied to.\<close>

definition filter_NextSong :: "event_record list \<Rightarrow> event_record list" where
  "filter_NextSong raw = filter (\<lambda>e. sql_eq (page e) (Some ''NextSong'')) raw"

text \<open>
  \<^verbatim>\<open>process_log_data\<close>, one entry per statement (lines 58, 59, 62, 63, 67, 72, 75, 84,
  89, 92, 102). Line 59 is
  \<^verbatim>\<open>df = spark.read.json(log_data).filter(df.page == 'NextSong')\<close>: Python evaluates the
  call \<^verbatim>\<open>spark.read.json(log_data)\<close>, then the argument of \<^verbatim>\<open>filter\<close>, which reads the
  local \<^verbatim>\<open>df\<close>, and only then would filter and bind \<^verbatim>\<open>df\<close>.
\<close>

definition process_log_data_body ::
  "('n, 'ts, 'f) sql_functions
     \<Rightarrow> (('n, 'ts, 'f) log_locals \<Rightarrow> error + ('n, 'ts, 'f) log_locals) list" where
  "process_log_data_body F =
    [\<lambda>l. Inr (l\<lparr>v_log_data := Some (input_data l @ ''log_data'')\<rparr>),
     \<lambda>l. and_then (load_fast ''log_data'' (v_log_data l)) (\<lambda>p.
          and_then (Inr (log_json (spark l) p)) (\<lambda>raw.
          and_then (load_fast ''df'' (log_locals.v_df l)) (\<lambda>_.
          Inr (l\<lparr>log_locals.v_df := Some (filter_NextSong raw)\<rparr>)))),
     \<lambda>l. Inr (l\<lparr>v_users_table_schema :=
            Some [''userId'', ''firstName'', ''lastName'', ''gender'', ''level'']\<rparr>),
     \<lambda>l. and_then (load_fast ''df'' (log_locals.v_df l)) (\<lambda>d.
          and_then (load_fast ''users_table_schema'' (v_users_table_schema l)) (\<lambda>_.
          Inr (l\<lparr>v_users_table := Some (users_table d)\<rparr>))),
     \<lambda>l. and_then (load_fast ''users_table'' (v_users_table l)) (\<lambda>t.
          Inr (l\<lparr>spark := write_parquet (spark l) ''overwrite'' [''gender'']
                 (output_data l @ ''users.parquet'') (UsersTable t)\<rparr>)),
     \<lambda>l. and_then (load_fast ''df'' (log_locals.v_df l)) (\<lambda>d.
          Inr (l\<lparr>v_df_timed := Some (withColumn_start_time F d)\<rparr>)),
     \<lambda>l. and_then (load_fast ''df'' (v_df_timed l)) (\<lambda>d.
          Inr (l\<lparr>v_time_table := Some (time_table F d)\<rparr>)),
     \<lambda>l. and_then (load_fast ''time_table'' (v_time_table l)) (\<lambda>t.
          Inr (l\<lparr>spark := write_parquet (spark l) ''overwrite'' [''year'', ''month'']
                 (output_data l @ ''time.parquet'') (TimeTable t)\<rparr>)),
     \<lambda>l. (case parquet (spark l) (output_data l @ ''songs.parquet'') of
            None \<Rightarrow> Inl (AnalysisException ''Path does not exist'')
          | Some file \<Rightarrow> Inr (l\<lparr>v_songs_df := Some (content file)\<rparr>)),
     \<lambda>l. and_then (load_fast ''df'' (v_df_timed l)) (\<lambda>d.
          and_then (load_fast ''songs_df'' (v_songs_df l)) (\<lambda>t.
          (case t of
             SongsTable songs \<Rightarrow>
               and_then (songplays_table F d songs) (\<lambda>rows.
               Inr (l\<lparr>v_songplays_table := Some rows\<rparr>))
           | _ \<Rightarrow> Inl (AttributeError ''title'')))),
     \<lambda>l. and_then (load_fast ''songplays_table'' (v_songplays_table l)) (\<lambda>t.
          Inr (l\<lparr>spark := write_parquet (spark l) ''overwrite'' [''year'', ''month'']
                 (output_data l @ ''songplays.parquet'') (SongplaysTable t)\<rparr>))]"

definition process_log_data ::
  "('n, 'ts, 'f) sql_functions \<Rightarrow> ('n, 'ts, 'f) spark_session \<Rightarrow> string \<Rightarrow> string
     \<Rightarrow> error option \<times> ('n, 'ts, 'f) log_locals" where
  "process_log_data F sp inp out =
     exec (process_log_data_body F)
       \<lparr>spark = sp, input_data = inp, output_data = out,
        v_log_data = None, log_locals.v_df = None, v_users_table_schema = None,
        v_users_table = None, v_df_timed = None, v_time_table = None,
        v_songs_df = None, v_songplays_table = None\<rparr>"

section \<open>Example inputs\<close>

text \<open>
  Records with every field null, from which the examples are built by setting fields,
  and a session whose two sources hold given records under \<^verbatim>\<open>data/\<close> and which has
  written nothing yet.
\<close>

definition null_song_record :: "int song_record" where
  "null_song_record =
     \<lparr>song_record.song_id = None, song_record.title = None, song_record.artist_id = None,
      song_record.year = None, song_record.duration = None, song_record.artist_name = None,
      song_record.artist_location = None, song_record.artist_latitude = None,
      song_record.artist_longitude = None\<rparr>"

definition null_event_record :: event_record where
  "null_event_record =
     \<lparr>event_record.userId = None, event_record.firstName = None, event_record.lastName = None,
      event_record.gender = None, event_record.level = None, ts = None, page = None,
      song = None, artist = None, sessionId = None, event_record.location = None,
      userAgent = None\<rparr>"

definition session_of ::
  "int song_record list \<Rightarrow> event_record list \<Rightarrow> (int, int option, int option) spark_session" where
  "session_of songs events =
     \<lparr>song_json = (\<lambda>p. if p = ''data/song_data'' then songs else []),
      log_json = (\<lambda>p. if p = ''data/log_data'' then events else []),
      parquet = Map.empty\<rparr>"

definition song_A :: "int song_record" where
  "song_A = null_song_record\<lparr>song_record.song_id := Some ''SOX1'',
     song_record.title := Some ''Title A'', song_record.artist_id := Some ''ARX1'',
     song_record.year := Some 2000\<rparr>"

definition song_A_cover :: "int song_record" where
  "song_A_cover = song_A\<lparr>song_record.song_id := Some ''SOX2'',
     song_record.artist_id := Some ''ARX2''\<rparr>"

definition song_A_live :: "int song_record" where
  "song_A_live = song_A\<lparr>song_record.title := Some ''Title A (Live)''\<rparr>"

definition song_A_no_artist :: "int song_record" where
  "song_A_no_artist = song_A\<lparr>song_record.artist_id := None\<rparr>"

definition artist_A1 :: "int song_record" where
  "artist_A1 = null_song_record\<lparr>song_record.song_id := Some ''S1'',
     song_record.artist_id := Some ''A1'', song_record.artist_name := Some ''X'',
     song_record.artist_location := Some ''Y''\<rparr>"

definition event_A :: event_record where
  "event_A = null_event_record\<lparr>page := Some ''NextSong'', song := Some ''Title A'',
     artist := Some ''Artist X'', ts := Some 1541440000000\<rparr>"

definition event_B :: event_record where
  "event_B = null_event_record\<lparr>page := Some ''NextSong'', song := Some ''Unknown Title'',
     ts := Some 1541440000000\<rparr>"

definition event_user :: event_record where
  "event_user = event_A\<lparr>event_record.userId := Some ''8'',
     event_record.firstName := Some ''Kaylee'', event_record.level := Some ''free''\<rparr>"

definition event_user_paid :: event_record where
  "event_user_paid = event_user\<lparr>event_record.level := Some ''paid''\<rparr>"

definition event_no_user :: event_record where
  "event_no_user = event_A\<lparr>event_record.firstName := Some ''Kaylee''\<rparr>"

section \<open>Properties of the dataframe operations\<close>

lemma set_dropna2:
  "set (dropna [c1, c2] df) = {r \<in> set df. c1 r \<noteq> None \<and> c2 r \<noteq> None}"
  by (auto simp: dropna_def)

lemma set_songs_table:
  "set (songs_table df) =
     song_table_columns `
       {r \<in> set df. song_record.song_id r \<noteq> None \<and> song_record.artist_id r \<noteq> None}"
  by (simp add: songs_table_def dropDuplicates_def select_def set_dropna2)

lemma set_artists_table:
  "set (artists_table df) =
     artist_table_columns `
       {r \<in> set df. song_record.song_id r \<noteq> None \<and> song_record.artist_id r \<noteq> None}"
  by (simp add: artists_table_def dropDuplicates_def select_def set_dropna2)

lemma set_users_table:
  "set (users_table df) =
     users_table_columns `
       {e \<in> set df. event_record.userId e \<noteq> None \<and> event_record.firstName e \<noteq> None}"
  by (simp add: users_table_def dropDuplicates_def select_def set_dropna2)

lemma distinct_songs_table: "distinct (songs_table df)"
  by (simp add: songs_table_def dropDuplicates_def)

lemma distinct_artists_table: "distinct (artists_table df)"
  by (simp add: artists_table_def dropDuplicates_def)

lemma distinct_users_table: "distinct (users_table df)"
  by (simp add: users_table_def dropDuplicates_def)

lemma count_list_distinct: "distinct xs \<Longrightarrow> x \<in> set xs \<Longrightarrow> count_list xs x = 1"
  by (induction xs) auto

text \<open>
  The left join yields, for every left row, one row per match and one row when there
  is no match; with at most one match per left row it keeps the number of rows.
\<close>

lemma length_join_left:
  "length (join_left xs ys c) = sum_list (map (\<lambda>a. max 1 (length (filter (c a) ys))) xs)"
  by (induction xs) (auto simp: join_left_def split: list.split)

lemma at_most_one_title:
  "distinct (filter (\<lambda>t. t \<noteq> None) (map f ys)) \<Longrightarrow> length (filter (\<lambda>s. sql_eq x (f s)) ys) \<le> 1"
proof (induction ys)
  case Nil
  then show ?case by simp
next
  case (Cons y ys)
  show ?case
  proof (cases "sql_eq x (f y)")
    case True
    then have "f y \<noteq> None" and "f y = x"
      by (auto simp: sql_eq_def)
    with Cons.prems have "f y \<notin> set (map f ys)"
      by auto
    then have "filter (\<lambda>s. sql_eq x (f s)) ys = []"
      using \<open>f y = x\<close> by (auto simp: filter_empty_conv sql_eq_def)
    with True show ?thesis by simp
  next
    case False
    with Cons show ?thesis by (simp split: if_splits)
  qed
qed

lemma length_join_left_ge: "length xs \<le> length (join_left xs ys c)"
proof -
  have "sum_list (map (\<lambda>a. 1) xs) \<le> sum_list (map (\<lambda>a. max 1 (length (filter (c a) ys))) xs)"
    by (rule sum_list_mono) simp
  then show ?thesis
    by (simp add: length_join_left sum_list_triv)
qed

lemma length_join_left_unique_titles:
  assumes "distinct (filter (\<lambda>t. t \<noteq> None) (map f ys))"
  shows "length (join_left xs ys (\<lambda>e s. sql_eq (g e) (f s))) = length xs"
proof -
  have one: "max 1 (length (filter (\<lambda>s. sql_eq (g e) (f s)) ys)) = 1" for e
    using at_most_one_title [OF assms, of "g e"] by simp
  have "sum_list (map (\<lambda>e. max 1 (length (filter (\<lambda>s. sql_eq (g e) (f s)) ys))) xs)
      = sum_list (map (\<lambda>e. 1) xs)"
    by (simp only: one)
  then show ?thesis
    by (simp add: length_join_left sum_list_triv)
qed

lemma song_columns_join_left:
  "map (\<lambda>p. case snd p of None \<Rightarrow> (None, None)
              | Some s \<Rightarrow> (songs_row.song_id s, songs_row.artist_id s))
       (join_left df songs_df (\<lambda>e s. sql_eq (song e) (songs_row.title s))) =
     concat (map (\<lambda>e. case filter (\<lambda>s. sql_eq (song e) (songs_row.title s)) songs_df of
                          [] \<Rightarrow> [(None, None)]
                        | ms \<Rightarrow> map (\<lambda>s. (songs_row.song_id s, songs_row.artist_id s)) ms) df)"
  by (induction df) (auto simp: join_left_def split: list.split)

section \<open>What the expressions of the log stage compute\<close>

text \<open>
  The builders of the log stage as functions of the dataframe they are applied to: the
  User rows come from the play events that have a \<^verbatim>\<open>userId\<close> and a \<^verbatim>\<open>firstName\<close>, the
  Time dimension has one row per distinct \<^verbatim>\<open>start_time\<close>, and the join pairs an event
  with every Song row whose title equals its song.
\<close>

lemma users_table_of_NextSong:
  "set (users_table (filter_NextSong raw)) =
     users_table_columns `
       {e \<in> set raw. page e = Some ''NextSong'' \<and> event_record.userId e \<noteq> None
          \<and> event_record.firstName e \<noteq> None}"
  by (auto simp: set_users_table filter_NextSong_def sql_eq_def)

lemma users_table_keys_non_null:
  "row \<in> set (users_table df) \<Longrightarrow> users_row.userId row \<noteq> None \<and> users_row.firstName row \<noteq> None"
  by (auto simp: set_users_table users_table_columns_def)

lemma start_time_withColumn:
  "map timed_event.start_time (withColumn_start_time F df) =
     map (\<lambda>e. to_timestamp F (div_1000 F (ts e))) df"
  by (simp add: withColumn_start_time_def event_record.defs timed_event.defs)

lemma start_times_time_table:
  "map time_row.start_time (time_table F df) = remdups (map timed_event.start_time df)"
  by (simp add: time_table_def dropDuplicates_def select_def comp_def)

lemma distinct_start_times: "distinct (map time_row.start_time (time_table F df))"
  by (simp add: start_times_time_table)

lemma matching_song_in_join_left:
  assumes "e \<in> set df" and "s \<in> set songs_df" and "sql_eq (song e) (songs_row.title s)"
  shows "(e, Some s) \<in> set (join_left df songs_df (\<lambda>e s. sql_eq (song e) (songs_row.title s)))"
proof -
  from assms(2,3) have "s \<in> set (filter (\<lambda>s. sql_eq (song e) (songs_row.title s)) songs_df)"
    by simp
  then have "(e, Some s) \<in>
      set (case filter (\<lambda>s. sql_eq (song e) (songs_row.title s)) songs_df of
             [] \<Rightarrow> [(e, None)]
           | ms \<Rightarrow> map (\<lambda>b. (e, Some b)) ms)"
    by (cases "filter (\<lambda>s. sql_eq (song e) (songs_row.title s)) songs_df") force+
  with assms(1) show ?thesis
    unfolding join_left_def by auto
qed

text \<open>
  The join of line 92 multiplies an event that matches several Song rows: one play of
  \<^verbatim>\<open>Title A\<close> against two songs of that title gives two joined rows.
\<close>

lemma join_left_two_songs_of_one_title:
  "length (join_left (withColumn_start_time F (filter_NextSong [event_A]))
             (songs_table [song_A, song_A_cover])
             (\<lambda>e s. sql_eq (song e) (songs_row.title s))) = 2"
  by (simp add: songs_table_def dropDuplicates_def select_def dropna_def song_table_columns_def
      song_A_def song_A_cover_def null_song_record_def filter_NextSong_def sql_eq_def event_A_def
      null_event_record_def withColumn_start_time_def join_left_def
      event_record.defs timed_event.defs)

text \<open>
  The expression of lines 92 to 99 builds no table, whatever the events and the songs:
  the call of line 94 gives \<^verbatim>\<open>date_format\<close> no format.
\<close>

lemma songplays_table_raises:
  "songplays_table F df songs_df =
     Inl (TypeError ''date_format() missing 1 required positional argument'')"
  by (simp add: songplays_table_def call_date_format_def and_then_def Let_def)

section \<open>The two runs\<close>

text \<open>
  \<^verbatim>\<open>process_song_data\<close> runs to its end: every local is bound before it is read. It
  leaves the two tables under the output path.
\<close>

lemma process_song_data_run:
  "process_song_data sp inp out =
     (None,
      \<lparr>spark = write_parquet
                (write_parquet sp ''overwrite'' [''year'', ''artist_id''] (out @ ''songs.parquet'')
                   (SongsTable (songs_table (song_json sp (inp @ ''song_data'')))))
                ''overwrite'' [''artist_location''] (out @ ''artists.parquet'')
                (ArtistsTable (artists_table (song_json sp (inp @ ''song_data'')))),
       input_data = inp, output_data = out,
       v_song_data = Some (inp @ ''song_data''),
       song_locals.v_df = Some (song_json sp (inp @ ''song_data'')),
       v_song_table_schema = Some [''song_id'', ''title'', ''artist_id'', ''year'', ''duration''],
       v_songs_table = Some (songs_table (song_json sp (inp @ ''song_data''))),
       v_artist_table_schema =
         Some [''artist_id'', ''artist_name'', ''artist_location'', ''artist_latitude'',
               ''artist_longitude''],
       v_artists_table = Some (artists_table (song_json sp (inp @ ''song_data'')))\<rparr>)"
  by (simp add: process_song_data_def process_song_data_body_def and_then_def load_fast_def
      write_parquet_def)

text \<open>
  \<^verbatim>\<open>process_log_data\<close> stops at its second statement: the argument of \<^verbatim>\<open>filter\<close> reads
  \<^verbatim>\<open>df\<close>, which no statement has bound yet.
\<close>

lemma process_log_data_run:
  "process_log_data F sp inp out =
     (Some (UnboundLocalError ''df''),
      \<lparr>spark = sp, input_data = inp, output_data = out,
       v_log_data = Some (inp @ ''log_data''), log_locals.v_df = None,
       v_users_table_schema = None, v_users_table = None, v_df_timed = None,
       v_time_table = None, v_songs_df = None, v_songplays_table = None\<rparr>)"
  by (simp add: process_log_data_def process_log_data_body_def and_then_def load_fast_def)

text \<open>
  Line 59 is not the only statement that raises. From locals in which \<^verbatim>\<open>df\<close> is bound
  and with a Song table under the output path, the statements after line 59 end in the
  \<^verbatim>\<open>TypeError\<close> of line 94, and \<^verbatim>\<open>songplays.parquet\<close> is still not written.
\<close>

lemma rest_of_log_stage_raises:
  assumes "log_locals.v_df l = Some d"
    and "parquet (spark l) (output_data l @ ''songs.parquet'') = Some file"
    and "content file = SongsTable songs"
  shows "fst (exec (drop 2 (process_log_data_body F)) l) =
      Some (TypeError ''date_format() missing 1 required positional argument'')
    \<and> parquet (spark (snd (exec (drop 2 (process_log_data_body F)) l)))
        (output_data l @ ''songplays.parquet'') = parquet (spark l) (output_data l @ ''songplays.parquet'')"
  using assms
  by (simp add: process_log_data_body_def and_then_def load_fast_def write_parquet_def
      songplays_table_raises)

section \<open>Claims about the run of the log stage\<close>

text \<open>
  Claim C3. For every input, \<^verbatim>\<open>process_log_data\<close> fails with an unbound-variable error,
  an \<^verbatim>\<open>UnboundLocalError\<close> for \<^verbatim>\<open>df\<close>, which is a \<^verbatim>\<open>NameError\<close>. It fails before any event
  record is filtered (\<^verbatim>\<open>df\<close> is still unbound at the end), and the session is left as it
  was: the User, Time and Songplay tables are never built and never written.
\<close>

theorem process_log_data_unbound_df:
  "fst (process_log_data F sp inp out) = Some (UnboundLocalError ''df'')
   \<and> is_NameError (UnboundLocalError ''df'')
   \<and> spark (snd (process_log_data F sp inp out)) = sp
   \<and> log_locals.v_df (snd (process_log_data F sp inp out)) = None
   \<and> v_users_table (snd (process_log_data F sp inp out)) = None
   \<and> v_time_table (snd (process_log_data F sp inp out)) = None
   \<and> v_songplays_table (snd (process_log_data F sp inp out)) = None"
  by (simp add: process_log_data_run is_NameError_def)

text \<open>
  The next five theorems evaluate the run on inputs of the scenarios of the
  specification. Each first states what the expressions of the log stage yield on the
  filtered events, and then what the run does: it raises at line 59 and writes nothing.
\<close>

text \<open>
  Claim C1 (every play event gives a Songplay row, with null \<^verbatim>\<open>song_id\<close> and
  \<^verbatim>\<open>artist_id\<close> when no Song title matches, so that there are as many Songplay rows as
  play events). Scenario B: one play event of an unknown title against the Song row of
  \<^verbatim>\<open>Title A\<close>. The join of line 92 keeps the event, with no song; the expression of
  lines 92 to 99 raises at line 94; the run raises at line 59, binds no
  \<^verbatim>\<open>songplays_table\<close> and writes no \<^verbatim>\<open>songplays.parquet\<close>.
\<close>

theorem scenario_B_songplay_never_built:
  "length (filter_NextSong [event_B]) = 1
   \<and> map snd (join_left (withColumn_start_time F (filter_NextSong [event_B]))
        (songs_table [song_A]) (\<lambda>e s. sql_eq (song e) (songs_row.title s))) = [None]
   \<and> songplays_table F (withColumn_start_time F (filter_NextSong [event_B])) (songs_table [song_A])
       = Inl (TypeError ''date_format() missing 1 required positional argument'')
   \<and> fst (process_log_data F
        (spark (snd (process_song_data (session_of [song_A] [event_B]) ''data/'' ''out/'')))
        ''data/'' ''out/'') = Some (UnboundLocalError ''df'')
   \<and> v_songplays_table (snd (process_log_data F
        (spark (snd (process_song_data (session_of [song_A] [event_B]) ''data/'' ''out/'')))
        ''data/'' ''out/'')) = None
   \<and> parquet (spark (snd (process_log_data F
        (spark (snd (process_song_data (session_of [song_A] [event_B]) ''data/'' ''out/'')))
        ''data/'' ''out/''))) ''out/songplays.parquet'' = None"
  by (simp add: process_log_data_run process_song_data_run write_parquet_def session_of_def
      songplays_table_raises
      songs_table_def dropDuplicates_def select_def dropna_def song_table_columns_def
      song_A_def null_song_record_def
      withColumn_start_time_def filter_NextSong_def sql_eq_def event_B_def null_event_record_def
      join_left_def event_record.defs timed_event.defs)

text \<open>
  Claim C5 (the User dimension is built from the \<^verbatim>\<open>NextSong\<close> events that have a
  \<^verbatim>\<open>userId\<close> and a \<^verbatim>\<open>firstName\<close>). On a log of one play event of user 8 and one
  record that is no play event, lines 63 to 65 would give one User row; the run binds no
  \<^verbatim>\<open>users_table\<close> and writes no \<^verbatim>\<open>users.parquet\<close>.
\<close>

theorem user_dimension_never_built:
  "users_table (filter_NextSong [event_user, null_event_record]) = [users_table_columns event_user]
   \<and> fst (process_log_data F (session_of [] [event_user, null_event_record]) ''data/'' ''out/'')
       = Some (UnboundLocalError ''df'')
   \<and> v_users_table (snd (process_log_data F (session_of [] [event_user, null_event_record])
         ''data/'' ''out/'')) = None
   \<and> parquet (spark (snd (process_log_data F (session_of [] [event_user, null_event_record])
         ''data/'' ''out/''))) ''out/users.parquet'' = None"
  by (simp add: process_log_data_run session_of_def users_table_def dropDuplicates_def select_def
      dropna_def filter_NextSong_def sql_eq_def event_user_def event_A_def null_event_record_def)

text \<open>
  Claim C6 (the Time dimension has one row per distinct \<^verbatim>\<open>start_time\<close>, with its
  calendar columns). On a log of two play events with the same \<^verbatim>\<open>ts\<close>, lines 72 to 82
  would give one Time row; the run binds no \<^verbatim>\<open>time_table\<close> and writes no
  \<^verbatim>\<open>time.parquet\<close>.
\<close>

theorem time_dimension_never_built:
  "time_table F (withColumn_start_time F (filter_NextSong [event_A, event_A])) =
     [\<lparr>time_row.start_time = to_timestamp F (div_1000 F (Some 1541440000000)),
       time_row.hour = sql_functions.hour F (to_timestamp F (div_1000 F (Some 1541440000000))),
       time_row.day = dayofmonth F (to_timestamp F (div_1000 F (Some 1541440000000))),
       time_row.week = weekofyear F (to_timestamp F (div_1000 F (Some 1541440000000))),
       time_row.month = sql_functions.month F (to_timestamp F (div_1000 F (Some 1541440000000))),
       time_row.year = sql_functions.year F (to_timestamp F (div_1000 F (Some 1541440000000))),
       time_row.weekday = dayofweek F (to_timestamp F (div_1000 F (Some 1541440000000)))\<rparr>]
   \<and> fst (process_log_data F (session_of [] [event_A, event_A]) ''data/'' ''out/'')
       = Some (UnboundLocalError ''df'')
   \<and> v_time_table (snd (process_log_data F (session_of [] [event_A, event_A]) ''data/'' ''out/''))
       = None
   \<and> parquet (spark (snd (process_log_data F (session_of [] [event_A, event_A]) ''data/'' ''out/'')))
        ''out/time.parquet'' = None"
  by (simp add: process_log_data_run session_of_def time_table_def dropDuplicates_def select_def
      withColumn_start_time_def filter_NextSong_def sql_eq_def event_A_def null_event_record_def
      event_record.defs timed_event.defs)

text \<open>
  Claim C7 (a play event whose \<^verbatim>\<open>song\<close> equals the \<^verbatim>\<open>title\<close> of a Song row gives a
  Songplay row with that row's \<^verbatim>\<open>song_id\<close> and \<^verbatim>\<open>artist_id\<close>). Scenario A: after
  \<^verbatim>\<open>process_song_data\<close> has written the Song row of \<^verbatim>\<open>Title A\<close>, the join of line 92
  pairs the event with the row of \<^verbatim>\<open>SOX1\<close> and \<^verbatim>\<open>ARX1\<close>; the expression of lines 92 to 99
  raises at line 94; the run raises at line 59 and writes no \<^verbatim>\<open>songplays.parquet\<close>.
\<close>

theorem scenario_A_songplay_never_built:
  "map (\<lambda>p. case snd p of None \<Rightarrow> (None, None)
              | Some s \<Rightarrow> (songs_row.song_id s, songs_row.artist_id s))
       (join_left (withColumn_start_time F (filter_NextSong [event_A])) (songs_table [song_A])
          (\<lambda>e s. sql_eq (song e) (songs_row.title s)))
     = [(Some ''SOX1'', Some ''ARX1'')]
   \<and> songplays_table F (withColumn_start_time F (filter_NextSong [event_A])) (songs_table [song_A])
       = Inl (TypeError ''date_format() missing 1 required positional argument'')
   \<and> map_option content
        (parquet (spark (snd (process_song_data (session_of [song_A] [event_A]) ''data/'' ''out/'')))
           ''out/songs.parquet'')
       = Some (SongsTable (songs_table [song_A]))
   \<and> fst (process_log_data F
        (spark (snd (process_song_data (session_of [song_A] [event_A]) ''data/'' ''out/'')))
        ''data/'' ''out/'') = Some (UnboundLocalError ''df'')
   \<and> parquet (spark (snd (process_log_data F
        (spark (snd (process_song_data (session_of [song_A] [event_A]) ''data/'' ''out/'')))
        ''data/'' ''out/''))) ''out/songplays.parquet'' = None"
  by (simp add: process_log_data_run process_song_data_run write_parquet_def session_of_def
      songplays_table_raises
      songs_table_def dropDuplicates_def select_def dropna_def song_table_columns_def
      song_A_def null_song_record_def
      withColumn_start_time_def filter_NextSong_def sql_eq_def event_A_def null_event_record_def
      join_left_def event_record.defs timed_event.defs)

text \<open>
  Claim C10 (a play event with a null \<^verbatim>\<open>userId\<close> is left out of the User dimension,
  but still gives its timestamp to the Time dimension and a Songplay row with a null
  \<^verbatim>\<open>user_id\<close>). Only \<^verbatim>\<open>users_table\<close> applies \<^verbatim>\<open>dropna\<close>: the User expression drops the
  event, the Time expression keeps its timestamp and the join keeps the event with its
  null \<^verbatim>\<open>userId\<close>. The expression of lines 92 to 99 raises at line 94; the run raises at
  line 59 and writes neither \<^verbatim>\<open>time.parquet\<close> nor \<^verbatim>\<open>songplays.parquet\<close>.
\<close>

theorem null_user_event_never_processed:
  "users_table (filter_NextSong [event_no_user]) = []
   \<and> map time_row.start_time
        (time_table F (withColumn_start_time F (filter_NextSong [event_no_user])))
       = [to_timestamp F (div_1000 F (ts event_no_user))]
   \<and> map (\<lambda>p. event_record.userId (fst p))
        (join_left (withColumn_start_time F (filter_NextSong [event_no_user]))
           (songs_table [song_A]) (\<lambda>e s. sql_eq (song e) (songs_row.title s)))
       = [None]
   \<and> songplays_table F (withColumn_start_time F (filter_NextSong [event_no_user]))
        (songs_table [song_A])
       = Inl (TypeError ''date_format() missing 1 required positional argument'')
   \<and> fst (process_log_data F
        (spark (snd (process_song_data (session_of [song_A] [event_no_user]) ''data/'' ''out/'')))
        ''data/'' ''out/'') = Some (UnboundLocalError ''df'')
   \<and> parquet (spark (snd (process_log_data F
        (spark (snd (process_song_data (session_of [song_A] [event_no_user]) ''data/'' ''out/'')))
        ''data/'' ''out/''))) ''out/time.parquet'' = None
   \<and> parquet (spark (snd (process_log_data F
        (spark (snd (process_song_data (session_of [song_A] [event_no_user]) ''data/'' ''out/'')))
        ''data/'' ''out/''))) ''out/songplays.parquet'' = None"
  by (simp add: process_log_data_run process_song_data_run write_parquet_def session_of_def
      songplays_table_raises users_table_def time_table_def
      songs_table_def dropDuplicates_def select_def dropna_def song_table_columns_def
      song_A_def null_song_record_def
      withColumn_start_time_def filter_NextSong_def sql_eq_def event_no_user_def event_A_def
      null_event_record_def join_left_def event_record.defs timed_event.defs)

section \<open>Claims about the song and artist dimensions\<close>

text \<open>
  Claim C4. For every raw song input, \<^verbatim>\<open>process_song_data\<close> succeeds and leaves the
  Song and the Artist dimension under the output path; every materialized Song row has
  a non-null \<^verbatim>\<open>song_id\<close> and a non-null \<^verbatim>\<open>artist_id\<close>, every materialized Artist row a
  non-null \<^verbatim>\<open>artist_id\<close>; both builders deduplicate the projection of what \<^verbatim>\<open>dropna\<close>
  keeps, and \<^verbatim>\<open>dropna\<close> keeps no record with a null \<^verbatim>\<open>song_id\<close> or \<^verbatim>\<open>artist_id\<close>.
\<close>

theorem song_artist_keys_non_null:
  "(let df = song_json sp (inp @ ''song_data'');
        after = snd (process_song_data sp inp out)
    in fst (process_song_data sp inp out) = None
     \<and> parquet (spark after) (out @ ''songs.parquet'') =
         Some \<lparr>write_mode = ''overwrite'', partitionBy = [''year'', ''artist_id''],
               content = SongsTable (songs_table df)\<rparr>
     \<and> parquet (spark after) (out @ ''artists.parquet'') =
         Some \<lparr>write_mode = ''overwrite'', partitionBy = [''artist_location''],
               content = ArtistsTable (artists_table df)\<rparr>
     \<and> (\<forall>row \<in> set (songs_table df).
           songs_row.song_id row \<noteq> None \<and> songs_row.artist_id row \<noteq> None)
     \<and> (\<forall>row \<in> set (artists_table df). artists_row.artist_id row \<noteq> None)
     \<and> songs_table df =
         dropDuplicates (select song_table_columns
           (dropna [song_record.song_id, song_record.artist_id] df))
     \<and> artists_table df =
         dropDuplicates (select artist_table_columns
           (dropna [song_record.song_id, song_record.artist_id] df))
     \<and> (\<forall>r \<in> set (dropna [song_record.song_id, song_record.artist_id] df).
           song_record.song_id r \<noteq> None \<and> song_record.artist_id r \<noteq> None))"
proof -
  define df where "df = song_json sp (inp @ ''song_data'')"
  have songs: "\<forall>row \<in> set (songs_table df).
      songs_row.song_id row \<noteq> None \<and> songs_row.artist_id row \<noteq> None"
    by (auto simp: set_songs_table song_table_columns_def)
  have artists: "\<forall>row \<in> set (artists_table df). artists_row.artist_id row \<noteq> None"
    by (auto simp: set_artists_table artist_table_columns_def)
  have kept: "\<forall>r \<in> set (dropna [song_record.song_id, song_record.artist_id] df).
      song_record.song_id r \<noteq> None \<and> song_record.artist_id r \<noteq> None"
    by (simp add: set_dropna2)
  have written: "fst (process_song_data sp inp out) = None
     \<and> parquet (spark (snd (process_song_data sp inp out))) (out @ ''songs.parquet'') =
         Some \<lparr>write_mode = ''overwrite'', partitionBy = [''year'', ''artist_id''],
               content = SongsTable (songs_table df)\<rparr>
     \<and> parquet (spark (snd (process_song_data sp inp out))) (out @ ''artists.parquet'') =
         Some \<lparr>write_mode = ''overwrite'', partitionBy = [''artist_location''],
               content = ArtistsTable (artists_table df)\<rparr>"
    by (simp add: process_song_data_run write_parquet_def df_def)
  have built: "songs_table df =
         dropDuplicates (select song_table_columns
           (dropna [song_record.song_id, song_record.artist_id] df))
     \<and> artists_table df =
         dropDuplicates (select artist_table_columns
           (dropna [song_record.song_id, song_record.artist_id] df))"
    by (simp add: songs_table_def artists_table_def)
  from songs artists kept written built show ?thesis
    unfolding Let_def df_def by blast
qed

text \<open>
  The theorem at a source of two records, one of them without \<^verbatim>\<open>artist_id\<close>: that one is
  dropped, and the one Song row written has both keys.
\<close>

theorem song_artist_keys_non_null_witness:
  "song_table_columns song_A \<in> set (songs_table [song_A, song_A_no_artist])
   \<and> songs_row.song_id (song_table_columns song_A) \<noteq> None
   \<and> songs_row.artist_id (song_table_columns song_A) \<noteq> None
   \<and> song_A_no_artist \<notin> set (dropna [song_record.song_id, song_record.artist_id] [song_A, song_A_no_artist])
   \<and> parquet (spark (snd (process_song_data (session_of [song_A, song_A_no_artist] []) ''data/'' ''out/'')))
        ''out/songs.parquet'' =
      Some \<lparr>write_mode = ''overwrite'', partitionBy = [''year'', ''artist_id''],
            content = SongsTable [song_table_columns song_A]\<rparr>"
  using song_artist_keys_non_null
    [of "session_of [song_A, song_A_no_artist] []" "''data/''" "''out/''"]
  by (simp add: Let_def session_of_def songs_table_def dropDuplicates_def select_def dropna_def
      song_A_def song_A_no_artist_def null_song_record_def song_table_columns_def)

text \<open>
  Claim C8. The Artist builder keeps the records the Song builder keeps (those with
  \<^verbatim>\<open>song_id\<close> and \<^verbatim>\<open>artist_id\<close>), projects each to the five artist columns, and holds
  every projected row once, so that two identical raw rows give one row; the table is
  written partitioned by \<^verbatim>\<open>artist_location\<close>.
\<close>

theorem artists_table_builder:
  "set (artists_table df) =
     (\<lambda>r. \<lparr>artists_row.artist_id = song_record.artist_id r,
            artists_row.artist_name = song_record.artist_name r,
            artists_row.artist_location = song_record.artist_location r,
            artists_row.artist_latitude = song_record.artist_latitude r,
            artists_row.artist_longitude = song_record.artist_longitude r\<rparr>) `
       {r \<in> set df. song_record.song_id r \<noteq> None \<and> song_record.artist_id r \<noteq> None}
   \<and> set (songs_table df) =
     song_table_columns `
       {r \<in> set df. song_record.song_id r \<noteq> None \<and> song_record.artist_id r \<noteq> None}
   \<and> distinct (artists_table df)
   \<and> (song_record.song_id r \<noteq> None \<and> song_record.artist_id r \<noteq> None
        \<longrightarrow> artists_table [r, r] = [artist_table_columns r])
   \<and> parquet (spark (snd (process_song_data sp inp out))) (out @ ''artists.parquet'') =
       Some \<lparr>write_mode = ''overwrite'', partitionBy = [''artist_location''],
             content = ArtistsTable (artists_table (song_json sp (inp @ ''song_data'')))\<rparr>"
proof -
  have cols: "artist_table_columns =
     (\<lambda>r :: 'a song_record. \<lparr>artists_row.artist_id = song_record.artist_id r,
            artists_row.artist_name = song_record.artist_name r,
            artists_row.artist_location = song_record.artist_location r,
            artists_row.artist_latitude = song_record.artist_latitude r,
            artists_row.artist_longitude = song_record.artist_longitude r\<rparr>)"
    by (rule ext) (simp add: artist_table_columns_def)
  have rows: "set (artists_table df) =
     artist_table_columns `
       {r \<in> set df. song_record.song_id r \<noteq> None \<and> song_record.artist_id r \<noteq> None}"
    by (rule set_artists_table)
  have twice: "song_record.song_id r \<noteq> None \<and> song_record.artist_id r \<noteq> None
        \<longrightarrow> artists_table [r, r] = [artist_table_columns r]"
    by (simp add: artists_table_def dropDuplicates_def select_def dropna_def)
  have written: "parquet (spark (snd (process_song_data sp inp out))) (out @ ''artists.parquet'') =
       Some \<lparr>write_mode = ''overwrite'', partitionBy = [''artist_location''],
             content = ArtistsTable (artists_table (song_json sp (inp @ ''song_data'')))\<rparr>"
    by (simp add: process_song_data_run write_parquet_def)
  from rows [unfolded cols] set_songs_table [of df] distinct_artists_table [of df] twice written
  show ?thesis by blast
qed

text \<open>Scenario C: two identical raw rows of artist \<^verbatim>\<open>A1\<close> give one Artist row.\<close>

theorem artists_table_builder_witness:
  "song_record.song_id artist_A1 \<noteq> None \<and> song_record.artist_id artist_A1 \<noteq> None
   \<and> artists_table [artist_A1, artist_A1] =
       [\<lparr>artists_row.artist_id = Some ''A1'', artists_row.artist_name = Some ''X'',
         artists_row.artist_location = Some ''Y'', artists_row.artist_latitude = None,
         artists_row.artist_longitude = None\<rparr>]
   \<and> partitionBy (the (parquet (spark (snd (process_song_data
         (session_of [artist_A1, artist_A1] []) ''data/'' ''out/''))) ''out/artists.parquet''))
       = [''artist_location'']"
  using artists_table_builder
    [where df = "[artist_A1, artist_A1]" and r = artist_A1
       and sp = "session_of [artist_A1, artist_A1] []" and inp = "''data/''" and out = "''out/''"]
  by (simp add: artist_A1_def null_song_record_def artist_table_columns_def)

text \<open>
  Claim C9, as amended. Deduplication in the Song builder and in the User builder
  (lines 63 to 65, on the dataframe they are applied to) is on the whole projected row:
  two raw records that both pass the builder's null filter, share the key
  (\<^verbatim>\<open>song_id\<close>, \<^verbatim>\<open>userId\<close>) and differ in another projected column each have their row
  in the table, exactly once.
\<close>

theorem full_row_deduplication:
  "(ra \<in> set df \<and> rb \<in> set df
      \<and> song_record.song_id ra \<noteq> None \<and> song_record.artist_id ra \<noteq> None
      \<and> song_record.song_id rb \<noteq> None \<and> song_record.artist_id rb \<noteq> None
      \<and> song_record.song_id ra = song_record.song_id rb
      \<and> song_table_columns ra \<noteq> song_table_columns rb
    \<longrightarrow> count_list (songs_table df) (song_table_columns ra) = 1
      \<and> count_list (songs_table df) (song_table_columns rb) = 1
      \<and> songs_row.song_id (song_table_columns ra) = songs_row.song_id (song_table_columns rb))
   \<and> (ea \<in> set ev \<and> eb \<in> set ev
      \<and> event_record.userId ea \<noteq> None \<and> event_record.firstName ea \<noteq> None
      \<and> event_record.userId eb \<noteq> None \<and> event_record.firstName eb \<noteq> None
      \<and> event_record.userId ea = event_record.userId eb
      \<and> users_table_columns ea \<noteq> users_table_columns eb
    \<longrightarrow> count_list (users_table ev) (users_table_columns ea) = 1
      \<and> count_list (users_table ev) (users_table_columns eb) = 1
      \<and> users_row.userId (users_table_columns ea) = users_row.userId (users_table_columns eb))"
proof -
  have song: "count_list (songs_table df) (song_table_columns r) = 1"
    if "r \<in> set df" "song_record.song_id r \<noteq> None" "song_record.artist_id r \<noteq> None" for r
    using that by (intro count_list_distinct distinct_songs_table) (auto simp: set_songs_table)
  have user: "count_list (users_table ev) (users_table_columns e) = 1"
    if "e \<in> set ev" "event_record.userId e \<noteq> None" "event_record.firstName e \<noteq> None" for e
    using that by (intro count_list_distinct distinct_users_table) (auto simp: set_users_table)
  have song_key: "songs_row.song_id (song_table_columns r) = song_record.song_id r"
    for r :: "'a song_record"
    by (simp add: song_table_columns_def)
  have user_key: "users_row.userId (users_table_columns e) = event_record.userId e" for e
    by (simp add: users_table_columns_def)
  show ?thesis
    using song [of ra] song [of rb] user [of ea] user [of eb]
    by (simp add: song_key user_key)
qed

text \<open>
  Two records of song \<^verbatim>\<open>SOX1\<close> with different titles give two Song rows, and the free
  and the paid event of user 8 give two User rows.
\<close>

theorem full_row_deduplication_witness:
  "songs_table [song_A, song_A_live, song_A] = [song_table_columns song_A_live, song_table_columns song_A]
   \<and> song_record.song_id song_A = song_record.song_id song_A_live
   \<and> count_list (songs_table [song_A, song_A_live, song_A]) (song_table_columns song_A) = 1
   \<and> count_list (songs_table [song_A, song_A_live, song_A]) (song_table_columns song_A_live) = 1
   \<and> event_record.userId event_user = event_record.userId event_user_paid
   \<and> count_list (users_table [event_user, event_user_paid]) (users_table_columns event_user) = 1
   \<and> count_list (users_table [event_user, event_user_paid]) (users_table_columns event_user_paid) = 1"
  using full_row_deduplication
    [where ra = song_A and rb = song_A_live and df = "[song_A, song_A_live, song_A]"
       and ea = event_user and eb = event_user_paid and ev = "[event_user, event_user_paid]"]
  by (simp add: songs_table_def users_table_def dropDuplicates_def select_def dropna_def
      song_A_def song_A_live_def null_song_record_def song_table_columns_def
      event_user_def event_user_paid_def event_A_def null_event_record_def users_table_columns_def)

text \<open>
  Without the condition on the null filter the claim fails: of two raw records with the
  same \<^verbatim>\<open>song_id\<close>, one of them without \<^verbatim>\<open>artist_id\<close>, only the other has a Song row.
\<close>

theorem dedup_null_key_counterexample:
  "song_record.song_id song_A = song_record.song_id song_A_no_artist
   \<and> song_table_columns song_A \<noteq> song_table_columns song_A_no_artist
   \<and> song_table_columns song_A_no_artist \<notin> set (songs_table [song_A, song_A_no_artist])
   \<and> songs_table [song_A, song_A_no_artist] = [song_table_columns song_A]"
  by (simp add: songs_table_def dropDuplicates_def select_def dropna_def
      song_A_def song_A_no_artist_def null_song_record_def song_table_columns_def)

end
